theory Spec2Isabelle
  imports Complex_Main
begin

section \<open>Topic graph store\<close>

text \<open>
  The topic store of \<^verbatim>\<open>lib/topics\<close>. A \<^verbatim>\<open>Topic\<close> carries an id, display
  fields (name, description, difficulty, position, colour), its adjacency list
  \<^verbatim>\<open>connectedTopics\<close> and the two flags \<^verbatim>\<open>captured\<close> and \<^verbatim>\<open>unlocked\<close>.
  The display fields are read by no function below and are left out of the record;
  the field \<^verbatim>\<open>id\<close> is called \<open>topic_id\<close>.
\<close>

record Topic =
  topic_id :: string
  connectedTopics :: "string list"
  captured :: bool
  unlocked :: bool

text \<open>The 81 entries of \<^verbatim>\<open>GALAXY_TOPICS\<close>, in the order of the source.\<close>

definition GALAXY_TOPICS :: "Topic list" where
  "GALAXY_TOPICS = [
    \<lparr>topic_id = ''algebra-overview'',
      connectedTopics = [''linear-equations'', ''systems-of-equations'', ''polynomials''],
      captured = False, unlocked = False\<rparr>,
    \<lparr>topic_id = ''linear-equations'',
      connectedTopics = [''algebra-overview'', ''systems-of-equations''],
      captured = False, unlocked = False\<rparr>,
    \<lparr>topic_id = ''systems-of-equations'',
      connectedTopics = [''linear-equations'', ''algebra-overview'', ''matrices''],
      captured = False, unlocked = False\<rparr>,
    \<lparr>topic_id = ''polynomials'',
      connectedTopics = [''algebra-overview'', ''rational-functions''],
      captured = False, unlocked = False\<rparr>,
    \<lparr>topic_id = ''matrices'',
      connectedTopics = [''systems-of-equations''],
      captured = False, unlocked = False\<rparr>,
    \<lparr>topic_id = ''rational-functions'',
      connectedTopics = [''polynomials''],
      captured = False, unlocked = False\<rparr>,
    \<lparr>topic_id = ''quadratic-equations'',
      connectedTopics = [''quadratic-formula'', ''parabola-graphs'', ''factorization'', ''algebra-overview''],
      captured = False, unlocked = True\<rparr>,
    \<lparr>topic_id = ''quadratic-formula'',
      connectedTopics = [''quadratic-equations'', ''discriminant'', ''complex-roots''],
      captured = False, unlocked = False\<rparr>,
    \<lparr>topic_id = ''parabola-graphs'',
      connectedTopics = [''quadratic-equations'', ''vertex-form'', ''real-world-applications''],
      captured = False, unlocked = False\<rparr>,
    \<lparr>topic_id = ''vertex-form'',
      connectedTopics = [''parabola-graphs'', ''completing-square''],
      captured = False, unlocked = False\<rparr>,
    \<lparr>topic_id = ''completing-square'',
      connectedTopics = [''vertex-form'', ''quadratic-formula'', ''quadratic-equations''],
      captured = False, unlocked = False\<rparr>,
    \<lparr>topic_id = ''discriminant'',
      connectedTopics = [''quadratic-formula'', ''complex-roots''],
      captured = False, unlocked = False\<rparr>,
    \<lparr>topic_id = ''factorization'',
      connectedTopics = [''quadratic-equations'', ''quadratic-formula''],
      captured = False, unlocked = False\<rparr>,
    \<lparr>topic_id = ''real-world-applications'',
      connectedTopics = [''parabola-graphs'', ''vertex-form''],
      captured = False, unlocked = False\<rparr>,
    \<lparr>topic_id = ''complex-roots'',
      connectedTopics = [''discriminant'', ''quadratic-formula''],
      captured = False, unlocked = False\<rparr>,
    \<lparr>topic_id = ''geometry-basics'',
      connectedTopics = [''triangles'', ''quadrilaterals'', ''circles'', ''area-volume''],
      captured = False, unlocked = False\<rparr>,
    \<lparr>topic_id = ''triangles'',
      connectedTopics = [''geometry-basics'', ''trigonometric-functions''],
      captured = False, unlocked = False\<rparr>,
    \<lparr>topic_id = ''quadrilaterals'',
      connectedTopics = [''geometry-basics''],
      captured = False, unlocked = False\<rparr>,
    \<lparr>topic_id = ''circles'',
      connectedTopics = [''geometry-basics'', ''area-volume''],
      captured = False, unlocked = False\<rparr>,
    \<lparr>topic_id = ''area-volume'',
      connectedTopics = [''geometry-basics'', ''circles'', ''coordinate-geometry''],
      captured = False, unlocked = False\<rparr>,
    \<lparr>topic_id = ''coordinate-geometry'',
      connectedTopics = [''area-volume''],
      captured = False, unlocked = False\<rparr>,
    \<lparr>topic_id = ''trigonometric-functions'',
      connectedTopics = [''triangles'', ''trig-identities'', ''trig-equations'', ''inverse-trig''],
      captured = False, unlocked = False\<rparr>,
    \<lparr>topic_id = ''trig-identities'',
      connectedTopics = [''trigonometric-functions'', ''trig-equations''],
      captured = False, unlocked = False\<rparr>,
    \<lparr>topic_id = ''trig-equations'',
      connectedTopics = [''trig-identities'', ''trigonometric-functions''],
      captured = False, unlocked = False\<rparr>,
    \<lparr>topic_id = ''inverse-trig'',
      connectedTopics = [''trigonometric-functions''],
      captured = False, unlocked = False\<rparr>,
    \<lparr>topic_id = ''limits'',
      connectedTopics = [''derivatives'', ''calculus-overview'', ''functions-analysis''],
      captured = False, unlocked = False\<rparr>,
    \<lparr>topic_id = ''functions-analysis'',
      connectedTopics = [''limits'', ''series-sequences''],
      captured = False, unlocked = False\<rparr>,
    \<lparr>topic_id = ''derivatives'',
      connectedTopics = [''limits'', ''integrals'', ''applications-derivatives''],
      captured = False, unlocked = False\<rparr>,
    \<lparr>topic_id = ''integrals'',
      connectedTopics = [''derivatives'', ''applications-integrals''],
      captured = False, unlocked = False\<rparr>,
    \<lparr>topic_id = ''applications-derivatives'',
      connectedTopics = [''derivatives''],
      captured = False, unlocked = False\<rparr>,
    \<lparr>topic_id = ''applications-integrals'',
      connectedTopics = [''integrals''],
      captured = False, unlocked = False\<rparr>,
    \<lparr>topic_id = ''basic-statistics'',
      connectedTopics = [''probability'', ''data-analysis'', ''regression''],
      captured = False, unlocked = False\<rparr>,
    \<lparr>topic_id = ''probability'',
      connectedTopics = [''basic-statistics'', ''statistics-inference''],
      captured = False, unlocked = False\<rparr>,
    \<lparr>topic_id = ''data-analysis'',
      connectedTopics = [''basic-statistics'', ''regression''],
      captured = False, unlocked = False\<rparr>,
    \<lparr>topic_id = ''regression'',
      connectedTopics = [''data-analysis'', ''basic-statistics''],
      captured = False, unlocked = False\<rparr>,
    \<lparr>topic_id = ''statistics-inference'',
      connectedTopics = [''probability''],
      captured = False, unlocked = False\<rparr>,
    \<lparr>topic_id = ''future-topic-1'',
      connectedTopics = [''algebra-overview''],
      captured = False, unlocked = False\<rparr>,
    \<lparr>topic_id = ''future-topic-2'',
      connectedTopics = [''linear-equations''],
      captured = False, unlocked = False\<rparr>,
    \<lparr>topic_id = ''future-topic-3'',
      connectedTopics = [''systems-of-equations''],
      captured = False, unlocked = False\<rparr>,
    \<lparr>topic_id = ''future-topic-4'',
      connectedTopics = [''matrices''],
      captured = False, unlocked = False\<rparr>,
    \<lparr>topic_id = ''future-topic-5'',
      connectedTopics = [''limits''],
      captured = False, unlocked = False\<rparr>,
    \<lparr>topic_id = ''future-topic-6'',
      connectedTopics = [''derivatives''],
      captured = False, unlocked = False\<rparr>,
    \<lparr>topic_id = ''future-topic-7'',
      connectedTopics = [''integrals''],
      captured = False, unlocked = False\<rparr>,
    \<lparr>topic_id = ''future-topic-8'',
      connectedTopics = [''basic-statistics''],
      captured = False, unlocked = False\<rparr>,
    \<lparr>topic_id = ''future-topic-9'',
      connectedTopics = [''probability''],
      captured = False, unlocked = False\<rparr>,
    \<lparr>topic_id = ''future-topic-10'',
      connectedTopics = [''regression''],
      captured = False, unlocked = False\<rparr>,
    \<lparr>topic_id = ''future-topic-11'',
      connectedTopics = [''future-topic-1''],
      captured = False, unlocked = False\<rparr>,
    \<lparr>topic_id = ''future-topic-12'',
      connectedTopics = [''future-topic-6''],
      captured = False, unlocked = False\<rparr>,
    \<lparr>topic_id = ''future-topic-13'',
      connectedTopics = [''future-topic-9''],
      captured = False, unlocked = False\<rparr>,
    \<lparr>topic_id = ''future-topic-14'',
      connectedTopics = [''trigonometric-functions''],
      captured = False, unlocked = False\<rparr>,
    \<lparr>topic_id = ''future-topic-15'',
      connectedTopics = [''parabola-graphs''],
      captured = False, unlocked = False\<rparr>,
    \<lparr>topic_id = ''future-topic-16'',
      connectedTopics = [''future-topic-11''],
      captured = False, unlocked = False\<rparr>,
    \<lparr>topic_id = ''future-topic-17'',
      connectedTopics = [''future-topic-1''],
      captured = False, unlocked = False\<rparr>,
    \<lparr>topic_id = ''future-topic-18'',
      connectedTopics = [''future-topic-3''],
      captured = False, unlocked = False\<rparr>,
    \<lparr>topic_id = ''future-topic-19'',
      connectedTopics = [''future-topic-4''],
      captured = False, unlocked = False\<rparr>,
    \<lparr>topic_id = ''future-topic-20'',
      connectedTopics = [''future-topic-1''],
      captured = False, unlocked = False\<rparr>,
    \<lparr>topic_id = ''future-topic-21'',
      connectedTopics = [''future-topic-14''],
      captured = False, unlocked = False\<rparr>,
    \<lparr>topic_id = ''future-topic-22'',
      connectedTopics = [''future-topic-15''],
      captured = False, unlocked = False\<rparr>,
    \<lparr>topic_id = ''future-topic-23'',
      connectedTopics = [''trigonometric-functions''],
      captured = False, unlocked = False\<rparr>,
    \<lparr>topic_id = ''future-topic-24'',
      connectedTopics = [''future-topic-14''],
      captured = False, unlocked = False\<rparr>,
    \<lparr>topic_id = ''future-topic-25'',
      connectedTopics = [''future-topic-12''],
      captured = False, unlocked = False\<rparr>,
    \<lparr>topic_id = ''future-topic-26'',
      connectedTopics = [''future-topic-5''],
      captured = False, unlocked = False\<rparr>,
    \<lparr>topic_id = ''future-topic-27'',
      connectedTopics = [''future-topic-7''],
      captured = False, unlocked = False\<rparr>,
    \<lparr>topic_id = ''future-topic-28'',
      connectedTopics = [''future-topic-13''],
      captured = False, unlocked = False\<rparr>,
    \<lparr>topic_id = ''future-topic-29'',
      connectedTopics = [''future-topic-10''],
      captured = False, unlocked = False\<rparr>,
    \<lparr>topic_id = ''future-topic-30'',
      connectedTopics = [''future-topic-8''],
      captured = False, unlocked = False\<rparr>,
    \<lparr>topic_id = ''future-topic-31'',
      connectedTopics = [''future-topic-16''],
      captured = False, unlocked = False\<rparr>,
    \<lparr>topic_id = ''future-topic-32'',
      connectedTopics = [''future-topic-17''],
      captured = False, unlocked = False\<rparr>,
    \<lparr>topic_id = ''future-topic-33'',
      connectedTopics = [''future-topic-18''],
      captured = False, unlocked = False\<rparr>,
    \<lparr>topic_id = ''future-topic-34'',
      connectedTopics = [''future-topic-19''],
      captured = False, unlocked = False\<rparr>,
    \<lparr>topic_id = ''future-topic-35'',
      connectedTopics = [''future-topic-20''],
      captured = False, unlocked = False\<rparr>,
    \<lparr>topic_id = ''future-topic-36'',
      connectedTopics = [''future-topic-21''],
      captured = False, unlocked = False\<rparr>,
    \<lparr>topic_id = ''future-topic-37'',
      connectedTopics = [''future-topic-22''],
      captured = False, unlocked = False\<rparr>,
    \<lparr>topic_id = ''future-topic-38'',
      connectedTopics = [''future-topic-23''],
      captured = False, unlocked = False\<rparr>,
    \<lparr>topic_id = ''future-topic-39'',
      connectedTopics = [''future-topic-24''],
      captured = False, unlocked = False\<rparr>,
    \<lparr>topic_id = ''future-topic-40'',
      connectedTopics = [''future-topic-25''],
      captured = False, unlocked = False\<rparr>,
    \<lparr>topic_id = ''future-topic-41'',
      connectedTopics = [''future-topic-26''],
      captured = False, unlocked = False\<rparr>,
    \<lparr>topic_id = ''future-topic-42'',
      connectedTopics = [''future-topic-27''],
      captured = False, unlocked = False\<rparr>,
    \<lparr>topic_id = ''future-topic-43'',
      connectedTopics = [''future-topic-28''],
      captured = False, unlocked = False\<rparr>,
    \<lparr>topic_id = ''future-topic-44'',
      connectedTopics = [''future-topic-29''],
      captured = False, unlocked = False\<rparr>,
    \<lparr>topic_id = ''future-topic-45'',
      connectedTopics = [''future-topic-30''],
      captured = False, unlocked = False\<rparr>
  ]"

text \<open>
  \<^verbatim>\<open>getTopicById\<close> is \<^verbatim>\<open>GALAXY_TOPICS.find(topic => topic.id === id)\<close>: the first
  entry with the id, or \<^verbatim>\<open>undefined\<close> (here \<open>None\<close>).
\<close>

definition getTopicById :: "string \<Rightarrow> Topic option" where
  "getTopicById ident = find (\<lambda>topic. topic_id topic = ident) GALAXY_TOPICS"

text \<open>
  \<^verbatim>\<open>shouldUnlockTopic(topicId, capturedTopics)\<close>: false for an id that is not in the
  store; true for a topic whose own \<^verbatim>\<open>unlocked\<close> flag is set in the store; otherwise
  whether some id of the topic's \<^verbatim>\<open>connectedTopics\<close> is in the captured list.
  The function takes the captured list only; it has no access to a progress record.
\<close>

definition shouldUnlockTopic :: "string \<Rightarrow> string list \<Rightarrow> bool" where
  "shouldUnlockTopic topicId capturedIds =
     (case getTopicById topicId of
        None \<Rightarrow> False
      | Some topic \<Rightarrow>
          if unlocked topic then True
          else list_ex (\<lambda>connectedId. connectedId \<in> set capturedIds) (connectedTopics topic))"

text \<open>
  The recomputation pass of the main page with progress persistence (the effect on
  \<^verbatim>\<open>[capturedTopics, unlockedTopics]\<close>): every node of the previous node list gets
  \<^verbatim>\<open>unlocked = shouldUnlockTopic(id, capturedTopics) || unlockedTopics.includes(id)\<close>
  and \<^verbatim>\<open>captured = capturedTopics.includes(id)\<close>.
\<close>

definition recomputeTopics :: "string list \<Rightarrow> string list \<Rightarrow> Topic list \<Rightarrow> Topic list" where
  "recomputeTopics capturedIds unlockedIds prevTopics =
     map (\<lambda>topic. topic\<lparr>
            unlocked := shouldUnlockTopic (topic_id topic) capturedIds
                        \<or> topic_id topic \<in> set unlockedIds,
            captured := topic_id topic \<in> set capturedIds\<rparr>)
         prevTopics"

text \<open>
  The same pass in \<^verbatim>\<open>pages/Index.tsx\<close>, the page without \<^verbatim>\<open>unlockedTopics\<close>:
  \<^verbatim>\<open>unlocked = shouldUnlockTopic(id, capturedTopics) || topic.unlocked\<close>, the flag
  of the node in the previous node list.
\<close>

definition recomputeTopics_captured_only :: "string list \<Rightarrow> Topic list \<Rightarrow> Topic list" where
  "recomputeTopics_captured_only capturedIds prevTopics =
     map (\<lambda>topic. topic\<lparr>
            unlocked := shouldUnlockTopic (topic_id topic) capturedIds \<or> unlocked topic,
            captured := topic_id topic \<in> set capturedIds\<rparr>)
         prevTopics"


section \<open>Progress record and browser storage\<close>

text \<open>
  The values that the two \<^verbatim>\<open>Record<string, number>\<close> objects of a stored record can
  hold. The type says numbers, and \<^verbatim>\<open>recordQuizResult\<close> keeps to numbers except for a
  topic id that names a member of \<^verbatim>\<open>Object.prototype\<close>: there it stores a string as
  the count and \<^verbatim>\<open>NaN\<close> as the score, which \<^verbatim>\<open>JSON.stringify\<close> writes as
  \<^verbatim>\<open>null\<close>. Numbers are integers of magnitude at most \<open>2 ^ 53\<close>, which a double
  holds exactly.
\<close>

datatype attempt_value = Count int | Text string

datatype score_value = Score int | NullScore

text \<open>
  \<^verbatim>\<open>PersistedProgress\<close> of \<^verbatim>\<open>types.ts\<close>. The two lists are JavaScript arrays and
  keep their order; the two \<^verbatim>\<open>Record\<close> objects are finite maps from the keys of
  their own properties. The completion rate is a fraction, computed exactly.
\<close>

record PersistedProgress =
  capturedTopics :: "string list"
  unlockedTopics :: "string list"
  quizAttempts :: "string \<rightharpoonup> attempt_value"
  quizScores :: "string \<rightharpoonup> score_value"
  lastActivity :: int
  completionRate :: rat

text \<open>
  \<^verbatim>\<open>Partial<PersistedProgress>\<close>: each field is present (\<open>Some\<close>) or absent
  (\<open>None\<close>) in the object literal.
\<close>

record ProgressUpdates =
  new_capturedTopics :: "string list option"
  new_unlockedTopics :: "string list option"
  new_quizAttempts :: "(string \<rightharpoonup> attempt_value) option"
  new_quizScores :: "(string \<rightharpoonup> score_value) option"
  new_lastActivity :: "int option"
  new_completionRate :: "rat option"

text \<open>
  What lies in \<^verbatim>\<open>localStorage\<close> under the key \<^verbatim>\<open>'math-guru-progress'\<close>: nothing,
  something that \<^verbatim>\<open>getItem\<close> or \<^verbatim>\<open>JSON.parse\<close> throws on, or the serialised form
  of a progress record.
\<close>

datatype storage_item = NoItem | Unreadable | Item PersistedProgress

text \<open>
  What one call reads from the browser: the value of \<^verbatim>\<open>Date.now()\<close>, whether
  \<^verbatim>\<open>localStorage.setItem\<close> returns normally (it throws when the quota is exceeded or
  storage is disabled), and the text that the engine gives for the built-in function
  of a name when the function is converted to a string.
\<close>

record call_env =
  date_now :: int
  setItem_succeeds :: bool
  function_text :: "string \<Rightarrow> string"

text \<open>
  \<^verbatim>\<open>loadProgress\<close>: \<^verbatim>\<open>stored ? JSON.parse(stored) : null\<close>, and \<^verbatim>\<open>null\<close> from the
  \<^verbatim>\<open>catch\<close> branch.
\<close>

definition loadProgress :: "storage_item \<Rightarrow> PersistedProgress option" where
  "loadProgress st =
     (case st of
        NoItem \<Rightarrow> None
      | Unreadable \<Rightarrow> None
      | Item progress \<Rightarrow> Some progress)"

text \<open>
  \<^verbatim>\<open>saveProgress\<close> writes \<^verbatim>\<open>{...progress, lastActivity: Date.now()}\<close>; when
  \<^verbatim>\<open>setItem\<close> throws, the \<^verbatim>\<open>catch\<close> branch logs the error and the stored item stays
  as it was.
\<close>

definition saveProgress :: "call_env \<Rightarrow> PersistedProgress \<Rightarrow> storage_item \<Rightarrow> storage_item" where
  "saveProgress env progress st =
     (if setItem_succeeds env
      then Item (progress\<lparr>lastActivity := date_now env\<rparr>)
      else st)"

definition getDefaultProgress :: "call_env \<Rightarrow> PersistedProgress" where
  "getDefaultProgress env =
     \<lparr>capturedTopics = [],
      unlockedTopics = [''quadratic-equations''],
      quizAttempts = Map.empty,
      quizScores = Map.empty,
      lastActivity = date_now env,
      completionRate = 0\<rparr>"

text \<open>The expression \<^verbatim>\<open>loadProgress() || getDefaultProgress()\<close>.\<close>

definition currentProgress :: "call_env \<Rightarrow> storage_item \<Rightarrow> PersistedProgress" where
  "currentProgress env st =
     (case loadProgress st of
        None \<Rightarrow> getDefaultProgress env
      | Some progress \<Rightarrow> progress)"

text \<open>The object spread \<^verbatim>\<open>{ ...current, ...updates }\<close>: a present field replaces the old one.\<close>

definition spread :: "PersistedProgress \<Rightarrow> ProgressUpdates \<Rightarrow> PersistedProgress" where
  "spread current updates =
     \<lparr>capturedTopics =
        (case new_capturedTopics updates of None \<Rightarrow> capturedTopics current | Some v \<Rightarrow> v),
      unlockedTopics =
        (case new_unlockedTopics updates of None \<Rightarrow> unlockedTopics current | Some v \<Rightarrow> v),
      quizAttempts =
        (case new_quizAttempts updates of None \<Rightarrow> quizAttempts current | Some v \<Rightarrow> v),
      quizScores =
        (case new_quizScores updates of None \<Rightarrow> quizScores current | Some v \<Rightarrow> v),
      lastActivity =
        (case new_lastActivity updates of None \<Rightarrow> lastActivity current | Some v \<Rightarrow> v),
      completionRate =
        (case new_completionRate updates of None \<Rightarrow> completionRate current | Some v \<Rightarrow> v)\<rparr>"

definition updateProgress :: "call_env \<Rightarrow> ProgressUpdates \<Rightarrow> storage_item \<Rightarrow> storage_item" where
  "updateProgress env updates st =
     (let current = currentProgress env st;
          updated = spread current updates
      in saveProgress env updated st)"

text \<open>
  The property read \<^verbatim>\<open>obj[key]\<close> on a plain object: the object's own property, or
  else what \<^verbatim>\<open>Object.prototype\<close> has under the key (one of its functions, or for
  \<^verbatim>\<open>__proto__\<close> the prototype object itself), or else \<^verbatim>\<open>undefined\<close>.
\<close>

datatype 'v property = Own 'v | InheritedFunction | InheritedObject | Undefined

definition Object_prototype_functions :: "string list" where
  "Object_prototype_functions =
     [''constructor'', ''hasOwnProperty'', ''isPrototypeOf'', ''propertyIsEnumerable'',
      ''toLocaleString'', ''toString'', ''valueOf'', ''__defineGetter__'',
      ''__defineSetter__'', ''__lookupGetter__'', ''__lookupSetter__'']"

definition get_property :: "(string \<rightharpoonup> 'v) \<Rightarrow> string \<Rightarrow> 'v property" where
  "get_property obj key =
     (case obj key of
        Some v \<Rightarrow> Own v
      | None \<Rightarrow>
          if key \<in> set Object_prototype_functions then InheritedFunction
          else if key = ''__proto__'' then InheritedObject
          else Undefined)"

text \<open>
  \<^verbatim>\<open>n + 1\<close> on a count: exact below \<open>2 ^ 53\<close>; at \<open>2 ^ 53\<close> the sum lies
  halfway between two doubles and rounds back to \<open>2 ^ 53\<close>.
\<close>

definition add_one :: "int \<Rightarrow> int" where
  "add_one n = (if n = 2 ^ 53 then 2 ^ 53 else n + 1)"

text \<open>
  \<^verbatim>\<open>(progress.quizAttempts[topicId] || 0) + 1\<close>. A missing entry, a stored zero and
  an empty string are falsy and give \<open>0 + 1\<close>; another number is incremented; a
  string, and an inherited function or object converted to a string, get the character
  \<open>1\<close> appended.
\<close>

definition attempts_plus_one :: "call_env \<Rightarrow> string \<Rightarrow> attempt_value property \<Rightarrow> attempt_value" where
  "attempts_plus_one env key v =
     (case v of
        Own (Count n) \<Rightarrow> Count (add_one (if n = 0 then 0 else n))
      | Own (Text s) \<Rightarrow> if s = [] then Count (add_one 0) else Text (s @ ''1'')
      | InheritedFunction \<Rightarrow> Text (function_text env key @ ''1'')
      | InheritedObject \<Rightarrow> Text (''[object Object]'' @ ''1'')
      | Undefined \<Rightarrow> Count (add_one 0))"

text \<open>
  \<^verbatim>\<open>Math.max(progress.quizScores[topicId] || 0, score)\<close>. A missing entry, a stored
  zero and \<^verbatim>\<open>null\<close> are falsy and give \<open>max 0 score\<close>; an inherited function or
  object converts to \<^verbatim>\<open>NaN\<close>, and so does the maximum, which is stored as
  \<^verbatim>\<open>null\<close>.
\<close>

definition max_score :: "score_value property \<Rightarrow> int \<Rightarrow> score_value" where
  "max_score v score =
     (case v of
        Own (Score n) \<Rightarrow> Score (max (if n = 0 then 0 else n) score)
      | Own NullScore \<Rightarrow> Score (max 0 score)
      | InheritedFunction \<Rightarrow> NullScore
      | InheritedObject \<Rightarrow> NullScore
      | Undefined \<Rightarrow> Score (max 0 score))"

text \<open>
  \<^verbatim>\<open>recordQuizResult(topicId, score, passed)\<close>. The total of topics is the literal 40
  of the source; \<^verbatim>\<open>updateProgress\<close> loads the stored record a second time.
\<close>

definition recordQuizResult ::
  "call_env \<Rightarrow> string \<Rightarrow> int \<Rightarrow> bool \<Rightarrow> storage_item \<Rightarrow> storage_item" where
  "recordQuizResult env topicId score passed st =
     (let progress = currentProgress env st;
          attempts = attempts_plus_one env topicId (get_property (quizAttempts progress) topicId);
          currentScore = get_property (quizScores progress) topicId;
          newScore = max_score currentScore score;
          capturedIds =
            (if passed \<and> topicId \<notin> set (capturedTopics progress)
             then capturedTopics progress @ [topicId]
             else capturedTopics progress);
          totalTopics = 40;
          rate = (of_nat (length capturedIds) / totalTopics) * 100
      in updateProgress env
           \<lparr>new_capturedTopics = Some capturedIds,
            new_unlockedTopics = None,
            new_quizAttempts = Some ((quizAttempts progress)(topicId \<mapsto> attempts)),
            new_quizScores = Some ((quizScores progress)(topicId \<mapsto> newScore)),
            new_lastActivity = None,
            new_completionRate = Some rate\<rparr>
           st)"

text \<open>A sequence of quiz results, recorded one after the other.\<close>

type_synonym quiz_call = "call_env \<times> string \<times> int \<times> bool"

fun recordQuizResults :: "quiz_call list \<Rightarrow> storage_item \<Rightarrow> storage_item" where
  "recordQuizResults [] st = st"
| "recordQuizResults ((env, topicId, score, passed) # calls) st =
     recordQuizResults calls (recordQuizResult env topicId score passed st)"


section \<open>Keyword discovery matcher\<close>

text \<open>
  Strings are lists of code units below 256 (the keyword table is ASCII).
  \<^verbatim>\<open>toLowerCase\<close> maps \<open>A\<close> to \<open>Z\<close> (65 to 90) and the upper-case letters of
  Latin-1 (192 to 222 without the multiplication sign 215) to the code unit 32 above
  and leaves every other code unit; the white space of \<^verbatim>\<open>trim\<close> and of the regular
  expression \<^verbatim>\<open>\s\<close> is space, tab, line feed, vertical tab, form feed, carriage
  return and the no-break space 160.
\<close>

definition toLowerCase_char :: "char \<Rightarrow> char" where
  "toLowerCase_char c =
     (let n = (of_char c :: nat)
      in if (65 \<le> n \<and> n \<le> 90) \<or> (192 \<le> n \<and> n \<le> 222 \<and> n \<noteq> 215)
         then char_of (n + 32) else c)"

definition toLowerCase :: "string \<Rightarrow> string" where
  "toLowerCase s = map toLowerCase_char s"

definition isSpace :: "char \<Rightarrow> bool" where
  "isSpace c =
     (c = CHR '' '' \<or> c = CHR 0x09 \<or> c = CHR 0x0A \<or> c = CHR 0x0B \<or> c = CHR 0x0C
      \<or> c = CHR 0x0D \<or> c = CHR 0xA0)"

definition trim :: "string \<Rightarrow> string" where
  "trim s = rev (dropWhile isSpace (rev (dropWhile isSpace s)))"

text \<open>\<^verbatim>\<open>s.includes(sub)\<close>: \<open>sub\<close> occurs in \<open>s\<close> as a contiguous substring.\<close>

fun startsWith :: "string \<Rightarrow> string \<Rightarrow> bool" where
  "startsWith s [] = True"
| "startsWith [] (c # sub) = False"
| "startsWith (d # s) (c # sub) = (d = c \<and> startsWith s sub)"

fun str_includes :: "string \<Rightarrow> string \<Rightarrow> bool" where
  "str_includes [] sub = (sub = [])"
| "str_includes (d # s) sub = (startsWith (d # s) sub \<or> str_includes s sub)"

text \<open>
  \<^verbatim>\<open>s.split(/\s+/)\<close>: the pieces between maximal runs of white space; a run at the
  start or the end leaves an empty piece there, and the empty string gives one empty
  piece. \<open>cur\<close> is the piece read so far.
\<close>

function split_ws :: "string \<Rightarrow> string \<Rightarrow> string list" where
  "split_ws cur [] = [cur]"
| "split_ws cur (c # s) =
     (if isSpace c then cur # split_ws [] (dropWhile isSpace s)
      else split_ws (cur @ [c]) s)"
  by pat_completeness auto
termination
  by (relation "measure (\<lambda>(cur, s). length s)")
     (auto simp: length_dropWhile_le less_Suc_eq_le)

text \<open>\<^verbatim>\<open>keyword.split(' ')[0]\<close>: the keyword up to its first space.\<close>

definition first_word :: "string \<Rightarrow> string" where
  "first_word keyword = takeWhile (\<lambda>c. c \<noteq> CHR '' '') keyword"

text \<open>
  A JavaScript \<^verbatim>\<open>Set<string>\<close> as the list of its elements in insertion order;
  \<^verbatim>\<open>add\<close> appends an element that is not yet there.
\<close>

definition set_add :: "string \<Rightarrow> string list \<Rightarrow> string list" where
  "set_add x s = (if x \<in> set s then s else s @ [x])"

text \<open>
  \<^verbatim>\<open>KEYWORD_TOPIC_MAP\<close> as the list \<^verbatim>\<open>Object.entries\<close> yields: the 67 keys in the
  order they are written (no key is written twice, none looks like an array index).
\<close>

definition KEYWORD_TOPIC_MAP :: "(string \<times> string list) list" where
  "KEYWORD_TOPIC_MAP = [
    (''algebra'', [''algebra-overview'']),
    (''linear equation'', [''linear-equations'']),
    (''system of equations'', [''systems-of-equations'', ''matrices'']),
    (''matrix'', [''matrices'', ''systems-of-equations'']),
    (''polynomial'', [''polynomials'', ''rational-functions'']),
    (''rational function'', [''rational-functions'']),
    (''vector'', [''matrices'']),
    (''quadratic'', [''quadratic-equations'']),
    (''quadratic formula'', [''quadratic-formula'', ''quadratic-equations'']),
    (''quadratic equation'', [''quadratic-equations'']),
    (''parabola'', [''parabola-graphs'', ''quadratic-equations'']),
    (''vertex form'', [''vertex-form'', ''parabola-graphs'']),
    (''vertex'', [''vertex-form'', ''parabola-graphs'']),
    (''completing square'', [''completing-square'', ''vertex-form'']),
    (''completing the square'', [''completing-square'', ''vertex-form'']),
    (''discriminant'', [''discriminant'', ''quadratic-formula'']),
    (''factorization'', [''factorization'', ''quadratic-equations'']),
    (''factoring'', [''factorization'', ''quadratic-equations'']),
    (''complex root'', [''complex-roots'', ''discriminant'']),
    (''imaginary root'', [''complex-roots'', ''discriminant'']),
    (''real world'', [''real-world-applications'', ''parabola-graphs'']),
    (''geometry'', [''geometry-basics'']),
    (''triangle'', [''triangles'', ''geometry-basics'']),
    (''pythagorean'', [''triangles'', ''geometry-basics'']),
    (''pythagorean theorem'', [''triangles'', ''geometry-basics'']),
    (''quadrilateral'', [''quadrilaterals'', ''geometry-basics'']),
    (''circle'', [''circles'', ''area-volume'']),
    (''area'', [''area-volume'', ''geometry-basics'']),
    (''volume'', [''area-volume'', ''geometry-basics'']),
    (''coordinate geometry'', [''coordinate-geometry'', ''area-volume'']),
    (''trigonometry'', [''trigonometric-functions'', ''triangles'']),
    (''trig'', [''trigonometric-functions'', ''triangles'']),
    (''sine'', [''trigonometric-functions'', ''triangles'']),
    (''cosine'', [''trigonometric-functions'', ''triangles'']),
    (''tangent'', [''trigonometric-functions'', ''triangles'']),
    (''sin'', [''trigonometric-functions'', ''triangles'']),
    (''cos'', [''trigonometric-functions'', ''triangles'']),
    (''tan'', [''trigonometric-functions'', ''triangles'']),
    (''trig identity'', [''trig-identities'', ''trigonometric-functions'']),
    (''trig equation'', [''trig-equations'', ''trig-identities'']),
    (''inverse trig'', [''inverse-trig'', ''trigonometric-functions'']),
    (''calculus'', [''limits'', ''functions-analysis'']),
    (''limit'', [''limits'', ''functions-analysis'']),
    (''continuity'', [''limits'', ''functions-analysis'']),
    (''derivative'', [''derivatives'', ''limits'']),
    (''integral'', [''integrals'', ''derivatives'']),
    (''integration'', [''integrals'', ''derivatives'']),
    (''differentiation'', [''derivatives'', ''limits'']),
    (''fundamental theorem'', [''integrals'', ''derivatives'']),
    (''optimization'', [''applications-derivatives'']),
    (''related rates'', [''applications-derivatives'']),
    (''maxima'', [''applications-derivatives'']),
    (''minima'', [''applications-derivatives'']),
    (''area integration'', [''applications-integrals'']),
    (''volume integration'', [''applications-integrals'']),
    (''statistics'', [''basic-statistics'']),
    (''probability'', [''probability'', ''basic-statistics'']),
    (''mean'', [''basic-statistics'']),
    (''median'', [''basic-statistics'']),
    (''mode'', [''basic-statistics'']),
    (''average'', [''basic-statistics'']),
    (''standard deviation'', [''basic-statistics'']),
    (''data analysis'', [''data-analysis'', ''basic-statistics'']),
    (''regression'', [''regression'', ''data-analysis'']),
    (''statistical inference'', [''statistics-inference'', ''probability'']),
    (''hypothesis testing'', [''statistics-inference'']),
    (''confidence interval'', [''statistics-inference''])
  ]"

text \<open>
  The first loop of \<^verbatim>\<open>getTopicsFromQuery\<close>: every keyword the normalised query
  contains adds its topic ids to the set.
\<close>

definition exactPass :: "string \<Rightarrow> string list \<Rightarrow> string list" where
  "exactPass queryWords matchedTopicIds =
     fold (\<lambda>(keyword, topicIds) matched.
             if str_includes queryWords keyword then fold set_add topicIds matched
             else matched)
          KEYWORD_TOPIC_MAP matchedTopicIds"

text \<open>
  The second loop: for every keyword and every word of the query longer than three
  characters, the topic ids are added when the keyword contains the word or the word
  contains the keyword's first word.
\<close>

definition partialPass :: "string \<Rightarrow> string list \<Rightarrow> string list" where
  "partialPass queryWords matchedTopicIds =
     (let partialMatches = filter (\<lambda>word. length word > 3) (split_ws [] queryWords)
      in fold (\<lambda>(keyword, topicIds) matched.
                 fold (\<lambda>word matched'.
                         if str_includes keyword word
                            \<or> str_includes word (first_word keyword)
                         then fold set_add topicIds matched'
                         else matched')
                      partialMatches matched)
              KEYWORD_TOPIC_MAP matchedTopicIds)"

definition getTopicsFromQuery :: "string \<Rightarrow> string list" where
  "getTopicsFromQuery query =
     (let queryWords = trim (toLowerCase query);
          matchedTopicIds = exactPass queryWords []
      in if length matchedTopicIds = 0
         then partialPass queryWords matchedTopicIds
         else matchedTopicIds)"

text \<open>
  The unlocking part of \<^verbatim>\<open>handleQuerySubmit\<close> on the main page, as the new value of
  the \<^verbatim>\<open>unlockedTopics\<close> state: an empty query returns at once; the matched ids that
  are neither unlocked nor captured are appended, and the list is passed through a
  \<^verbatim>\<open>Set\<close>.
\<close>

definition handleQuerySubmit_unlocked :: "string \<Rightarrow> string list \<Rightarrow> string list \<Rightarrow> string list" where
  "handleQuerySubmit_unlocked userQuery capturedIds unlockedIds =
     (if trim userQuery = [] then unlockedIds
      else
        let query = trim userQuery;
            topicIds = getTopicsFromQuery query
        in if length topicIds > 0
           then
             let newlyUnlockable =
                   filter (\<lambda>topicId. topicId \<notin> set unlockedIds \<and> topicId \<notin> set capturedIds)
                          topicIds
             in if length newlyUnlockable > 0
                then fold set_add (unlockedIds @ newlyUnlockable) []
                else unlockedIds
           else unlockedIds)"

text \<open>
  Keyword discovery on the stored record. The page keeps \<^verbatim>\<open>capturedTopics\<close> and
  \<^verbatim>\<open>unlockedTopics\<close> in state variables that are loaded from the stored record and
  written back with \<^verbatim>\<open>updateProgress({capturedTopics, unlockedTopics})\<close> when one of
  them changes; here the two are read from the stored record directly, and a query
  that unlocks nothing new changes no state and writes nothing.
\<close>

definition discoverTopics :: "call_env \<Rightarrow> string \<Rightarrow> storage_item \<Rightarrow> storage_item" where
  "discoverTopics env userQuery st =
     (let progress = currentProgress env st;
          capturedIds = capturedTopics progress;
          unlockedIds = handleQuerySubmit_unlocked userQuery capturedIds (unlockedTopics progress)
      in if unlockedIds = unlockedTopics progress then st
         else updateProgress env
           \<lparr>new_capturedTopics = Some capturedIds,
            new_unlockedTopics = Some unlockedIds,
            new_quizAttempts = None,
            new_quizScores = None,
            new_lastActivity = None,
            new_completionRate = None\<rparr>
           st)"

section \<open>Reachable progress records\<close>

text \<open>
  The relation between the captured and the unlocked topics of a record: every captured
  topic is in \<^verbatim>\<open>unlockedTopics\<close> or is \<^verbatim>\<open>'quadratic-equations'\<close>, the one topic of
  the store whose \<^verbatim>\<open>unlocked\<close> flag is set and the one id of the default record's
  \<^verbatim>\<open>unlockedTopics\<close>.
\<close>

definition captured_within_unlocked :: "PersistedProgress \<Rightarrow> bool" where
  "captured_within_unlocked P =
     (set (capturedTopics P) \<subseteq> set (unlockedTopics P) \<union> {''quadratic-equations''})"

text \<open>
  The stored items that the operations of the progress service and keyword discovery
  produce from the first run, when nothing is stored.
\<close>

inductive reachable :: "storage_item \<Rightarrow> bool" where
  first_run: "reachable NoItem"
| quiz: "reachable st \<Longrightarrow> reachable (recordQuizResult env topicId score passed st)"
| discovery: "reachable st \<Longrightarrow> reachable (discoverTopics env userQuery st)"
| update: "reachable st \<Longrightarrow> reachable (updateProgress env updates st)"

text \<open>
  The same without the raw \<^verbatim>\<open>updateProgress\<close>, and with a passed quiz recorded
  only for a topic that is \<^verbatim>\<open>'quadratic-equations'\<close> or in \<^verbatim>\<open>unlockedTopics\<close> at the
  time of the call.
\<close>

inductive reachable_gated :: "storage_item \<Rightarrow> bool" where
  gated_first_run: "reachable_gated NoItem"
| gated_quiz:
    "reachable_gated st \<Longrightarrow>
     passed \<longrightarrow> topicId = ''quadratic-equations''
                \<or> topicId \<in> set (unlockedTopics (currentProgress env st)) \<Longrightarrow>
     reachable_gated (recordQuizResult env topicId score passed st)"
| gated_discovery:
    "reachable_gated st \<Longrightarrow> reachable_gated (discoverTopics env userQuery st)"

section \<open>Reading counts and best scores\<close>





section \<open>Concrete inputs\<close>

text \<open>The text of a built-in function as V8 prints it.\<close>

definition native_function_text :: "string \<Rightarrow> string" where
  "native_function_text name = ''function '' @ name @ ''() { [native code] }''"

definition env_write_ok :: call_env where
  "env_write_ok =
     \<lparr>date_now = 1000, setItem_succeeds = True, function_text = native_function_text\<rparr>"


text \<open>The default record after the query \<^verbatim>\<open>linear equation\<close> has unlocked a second topic.\<close>

definition progress_linear_unlocked :: PersistedProgress where
  "progress_linear_unlocked =
     \<lparr>capturedTopics = [],
      unlockedTopics = [''quadratic-equations'', ''linear-equations''],
      quizAttempts = Map.empty,
      quizScores = Map.empty,
      lastActivity = 0,
      completionRate = 0\<rparr>"

text \<open>A record with one captured topic and nothing unlocked explicitly.\<close>

definition progress_formula_captured :: PersistedProgress where
  "progress_formula_captured =
     \<lparr>capturedTopics = [''quadratic-formula''],
      unlockedTopics = [],
      quizAttempts = [''quadratic-formula'' \<mapsto> Count 1],
      quizScores = [''quadratic-formula'' \<mapsto> Score 80],
      lastActivity = 0,
      completionRate = 5 / 2\<rparr>"

text \<open>
  The store's entry \<^verbatim>\<open>completing-square\<close>: it lists \<^verbatim>\<open>quadratic-formula\<close>, which
  does not list it back.
\<close>

definition topic_completing_square :: Topic where
  "topic_completing_square =
     \<lparr>topic_id = ''completing-square'',
      connectedTopics = [''vertex-form'', ''quadratic-formula'', ''quadratic-equations''],
      captured = False, unlocked = False\<rparr>"


section \<open>Lookup in the topic store\<close>

lemma find_by_key_distinct:
  "distinct (map f xs) \<Longrightarrow> x \<in> set xs \<Longrightarrow> find (\<lambda>y. f y = f x) xs = Some x"
proof (induction xs)
  case Nil
  then show ?case by simp
next
  case (Cons a xs)
  show ?case
  proof (cases "a = x")
    case True
    then show ?thesis by simp
  next
    case False
    with Cons.prems have xin: "x \<in> set xs" by simp
    with Cons.prems have "f a \<noteq> f x" by auto
    with Cons xin show ?thesis by simp
  qed
qed

lemma GALAXY_TOPICS_distinct_ids: "distinct (map topic_id GALAXY_TOPICS)"
  by (simp add: GALAXY_TOPICS_def)

lemma getTopicById_member:
  "topic \<in> set GALAXY_TOPICS \<Longrightarrow> getTopicById (topic_id topic) = Some topic"
  unfolding getTopicById_def
  by (rule find_by_key_distinct [OF GALAXY_TOPICS_distinct_ids])

section \<open>The unlock check\<close>

text \<open>
  Claim C8. For an id that no topic of the store carries, the lookup returns nothing
  and \<open>shouldUnlockTopic\<close> returns false, whatever the captured list is. The function
  has no failing branch: the lookup miss is the \<open>None\<close> case, answered with
  \<open>False\<close>.
\<close>

theorem shouldUnlockTopic_unknown_id:
  assumes "topicId \<notin> set (map topic_id GALAXY_TOPICS)"
  shows "getTopicById topicId = None \<and> shouldUnlockTopic topicId capturedIds = False"
proof -
  from assms have "\<not> (\<exists>topic. topic \<in> set GALAXY_TOPICS \<and> topic_id topic = topicId)"
    by auto
  then have "getTopicById topicId = None"
    unfolding getTopicById_def by (simp add: find_None_iff)
  then show ?thesis
    by (simp add: shouldUnlockTopic_def)
qed

theorem shouldUnlockTopic_unknown_id_witness:
  "''no-such-topic'' \<notin> set (map topic_id GALAXY_TOPICS)
   \<and> getTopicById ''no-such-topic'' = None
   \<and> shouldUnlockTopic ''no-such-topic'' [''quadratic-equations''] = False"
proof -
  have h: "''no-such-topic'' \<notin> set (map topic_id GALAXY_TOPICS)"
    by (simp add: GALAXY_TOPICS_def)
  from shouldUnlockTopic_unknown_id [OF h, of "[''quadratic-equations'']"] h
  show ?thesis by blast
qed

text \<open>
  Claim C4. For every topic of the store and every progress record: when some id of the
  topic's own \<open>connectedTopics\<close> is among the record's captured topics, the unlock
  check on the topic's id returns true. Nothing is asked of \<open>unlockedTopics\<close>, and
  nothing of the adjacency list of the captured neighbour.
\<close>

theorem shouldUnlockTopic_captured_neighbor:
  assumes "topic \<in> set GALAXY_TOPICS"
    and "connectedId \<in> set (connectedTopics topic)"
    and "connectedId \<in> set (capturedTopics P)"
  shows "shouldUnlockTopic (topic_id topic) (capturedTopics P)"
proof -
  from assms(1) have "getTopicById (topic_id topic) = Some topic"
    by (rule getTopicById_member)
  moreover from assms(2,3)
  have "list_ex (\<lambda>c. c \<in> set (capturedTopics P)) (connectedTopics topic)"
    by (auto simp: list_ex_iff)
  ultimately show ?thesis
    by (simp add: shouldUnlockTopic_def)
qed

text \<open>
  At \<open>completing-square\<close> with \<open>quadratic-formula\<close> captured: the topic is not in
  \<open>unlockedTopics\<close>, and \<open>quadratic-formula\<close> does not list it back.
\<close>

theorem shouldUnlockTopic_captured_neighbor_witness:
  "topic_completing_square \<in> set GALAXY_TOPICS
   \<and> ''quadratic-formula'' \<in> set (connectedTopics topic_completing_square)
   \<and> ''quadratic-formula'' \<in> set (capturedTopics progress_formula_captured)
   \<and> ''completing-square'' \<notin> set (unlockedTopics progress_formula_captured)
   \<and> map connectedTopics (filter (\<lambda>topic. topic_id topic = ''quadratic-formula'') GALAXY_TOPICS)
       = [[''quadratic-equations'', ''discriminant'', ''complex-roots'']]
   \<and> shouldUnlockTopic ''completing-square'' (capturedTopics progress_formula_captured)"
proof -
  have m: "topic_completing_square \<in> set GALAXY_TOPICS"
    by (simp add: GALAXY_TOPICS_def topic_completing_square_def)
  have c: "''quadratic-formula'' \<in> set (connectedTopics topic_completing_square)"
    by (simp add: topic_completing_square_def)
  have p: "''quadratic-formula'' \<in> set (capturedTopics progress_formula_captured)"
    by (simp add: progress_formula_captured_def)
  have u: "''completing-square'' \<notin> set (unlockedTopics progress_formula_captured)"
    by (simp add: progress_formula_captured_def)
  have i: "topic_id topic_completing_square = ''completing-square''"
    by (simp add: topic_completing_square_def)
  have b: "map connectedTopics
      (filter (\<lambda>topic. topic_id topic = ''quadratic-formula'') GALAXY_TOPICS)
       = [[''quadratic-equations'', ''discriminant'', ''complex-roots'']]"
    by (simp add: GALAXY_TOPICS_def)
  from shouldUnlockTopic_captured_neighbor [OF m c p] m c p u i b
  show ?thesis by simp
qed

text \<open>
  Claim C1, as stated, fails: \<open>shouldUnlockTopic\<close> receives the captured list and
  nothing else of the progress record. With \<open>linear-equations\<close> in
  \<open>unlockedTopics\<close> and nothing captured it returns false for \<open>linear-equations\<close>.
\<close>

theorem shouldUnlockTopic_ignores_unlockedTopics:
  "''linear-equations'' \<in> set (unlockedTopics progress_linear_unlocked)
   \<and> shouldUnlockTopic ''linear-equations'' (capturedTopics progress_linear_unlocked) = False"
  by (simp add: progress_linear_unlocked_def shouldUnlockTopic_def getTopicById_def
      GALAXY_TOPICS_def)

text \<open>
  Claim C1, amended. The recomputation pass of the main page marks every node whose id
  is in the record's \<open>unlockedTopics\<close> as unlocked, whatever is captured: it takes
  the disjunction of \<open>shouldUnlockTopic\<close> and membership in \<open>unlockedTopics\<close>.
  The pass of the page without \<open>unlockedTopics\<close> keeps a node unlocked whose flag
  was set before. \<open>shouldUnlockTopic\<close> itself is sticky for the \<open>unlocked\<close>
  flag of the store's entry only.
\<close>

theorem recomputeTopics_unlocked_sticky:
  "(\<forall>topic \<in> set (recomputeTopics (capturedTopics P) (unlockedTopics P) prevTopics).
      topic_id topic \<in> set (unlockedTopics P) \<longrightarrow> unlocked topic)
   \<and> (\<forall>i < length prevTopics.
        unlocked (prevTopics ! i)
        \<longrightarrow> unlocked (recomputeTopics_captured_only (capturedTopics P) prevTopics ! i))
   \<and> (\<forall>topic. getTopicById topicId = Some topic \<and> unlocked topic
        \<longrightarrow> shouldUnlockTopic topicId (capturedTopics P))"
  by (auto simp: recomputeTopics_def recomputeTopics_captured_only_def shouldUnlockTopic_def)

theorem recomputeTopics_unlocked_sticky_witness:
  "topic_id (recomputeTopics (capturedTopics progress_linear_unlocked)
               (unlockedTopics progress_linear_unlocked) GALAXY_TOPICS ! 1) = ''linear-equations''
   \<and> ''linear-equations'' \<in> set (unlockedTopics progress_linear_unlocked)
   \<and> unlocked (recomputeTopics (capturedTopics progress_linear_unlocked)
               (unlockedTopics progress_linear_unlocked) GALAXY_TOPICS ! 1)
   \<and> shouldUnlockTopic ''quadratic-equations'' (capturedTopics progress_linear_unlocked)"
proof -
  let ?ts = "recomputeTopics (capturedTopics progress_linear_unlocked)
               (unlockedTopics progress_linear_unlocked) GALAXY_TOPICS"
  have len: "1 < length ?ts"
    by (simp add: recomputeTopics_def GALAXY_TOPICS_def)
  then have m: "?ts ! 1 \<in> set ?ts"
    by (rule nth_mem)
  have i: "topic_id (?ts ! 1) = ''linear-equations''"
    by (simp add: recomputeTopics_def GALAXY_TOPICS_def)
  have u: "''linear-equations'' \<in> set (unlockedTopics progress_linear_unlocked)"
    by (simp add: progress_linear_unlocked_def)
  have g: "getTopicById ''quadratic-equations'' =
      Some \<lparr>topic_id = ''quadratic-equations'',
        connectedTopics =
          [''quadratic-formula'', ''parabola-graphs'', ''factorization'', ''algebra-overview''],
        captured = False, unlocked = True\<rparr>"
    by (simp add: getTopicById_def GALAXY_TOPICS_def)
  from recomputeTopics_unlocked_sticky
         [of progress_linear_unlocked GALAXY_TOPICS "''quadratic-equations''"]
    m i u g
  show ?thesis by auto
qed

section \<open>Recording quiz results\<close>

lemma recordQuizResult_write_fails:
  "\<not> setItem_succeeds env \<Longrightarrow> recordQuizResult env topicId score passed st = st"
  by (simp add: recordQuizResult_def updateProgress_def saveProgress_def Let_def)

lemma loadProgress_recordQuizResult:
  assumes "setItem_succeeds env"
  shows "loadProgress (recordQuizResult env topicId score passed st) =
    Some \<lparr>capturedTopics =
            (if passed \<and> topicId \<notin> set (capturedTopics (currentProgress env st))
             then capturedTopics (currentProgress env st) @ [topicId]
             else capturedTopics (currentProgress env st)),
          unlockedTopics = unlockedTopics (currentProgress env st),
          quizAttempts = (quizAttempts (currentProgress env st))
             (topicId \<mapsto> attempts_plus_one env topicId
                          (get_property (quizAttempts (currentProgress env st)) topicId)),
          quizScores = (quizScores (currentProgress env st))
             (topicId \<mapsto> max_score (get_property (quizScores (currentProgress env st)) topicId)
                          score),
          lastActivity = date_now env,
          completionRate =
            (of_nat (length
               (if passed \<and> topicId \<notin> set (capturedTopics (currentProgress env st))
                then capturedTopics (currentProgress env st) @ [topicId]
                else capturedTopics (currentProgress env st))) / 40) * 100\<rparr>"
  using assms
  by (simp add: recordQuizResult_def updateProgress_def saveProgress_def spread_def
      loadProgress_def Let_def)

text \<open>Only \<open>lastActivity\<close> of the record in use depends on the clock.\<close>

lemma currentProgress_env:
  "capturedTopics (currentProgress e st) = capturedTopics (currentProgress e' st)"
  "unlockedTopics (currentProgress e st) = unlockedTopics (currentProgress e' st)"
  "quizAttempts (currentProgress e st) = quizAttempts (currentProgress e' st)"
  "quizScores (currentProgress e st) = quizScores (currentProgress e' st)"
  "completionRate (currentProgress e st) = completionRate (currentProgress e' st)"
  by (simp_all add: currentProgress_def getDefaultProgress_def split: option.splits)

lemma currentProgress_loaded:
  "loadProgress st = Some P \<Longrightarrow> currentProgress e st = P"
  by (simp add: currentProgress_def)

lemma currentProgress_Item: "currentProgress e (Item P) = P"
  by (simp add: currentProgress_def loadProgress_def)

lemma capturedTopics_recordQuizResult:
  "set (capturedTopics (currentProgress e st))
     \<subseteq> set (capturedTopics (currentProgress e (recordQuizResult env topicId score passed st)))"
proof (cases "setItem_succeeds env")
  case True
  from loadProgress_recordQuizResult [OF True, of topicId score passed st]
  show ?thesis
    by (auto simp: currentProgress_loaded currentProgress_env(1) [of e st env])
next
  case False
  then show ?thesis by (simp add: recordQuizResult_write_fails)
qed

lemma capturedTopics_recordQuizResults:
  "set (capturedTopics (currentProgress e st))
     \<subseteq> set (capturedTopics (currentProgress e (recordQuizResults calls st)))"
proof (induction calls arbitrary: st)
  case Nil
  show ?case by simp
next
  case (Cons call calls)
  obtain env topicId score passed where call: "call = (env, topicId, score, passed)"
    by (cases call) auto
  have "set (capturedTopics (currentProgress e st))
      \<subseteq> set (capturedTopics (currentProgress e (recordQuizResult env topicId score passed st)))"
    by (rule capturedTopics_recordQuizResult)
  also have "\<dots> \<subseteq> set (capturedTopics (currentProgress e
      (recordQuizResults calls (recordQuizResult env topicId score passed st))))"
    by (rule Cons.IH)
  finally show ?case by (simp add: call)
qed

text \<open>A stored record stays a stored record: no call removes or corrupts the item.\<close>

lemma loadProgress_recordQuizResult_Item:
  "\<exists>P'. loadProgress (recordQuizResult env topicId score passed (Item P)) = Some P'"
proof (cases "setItem_succeeds env")
  case True
  then show ?thesis by (simp add: loadProgress_recordQuizResult)
next
  case False
  then show ?thesis by (simp add: recordQuizResult_write_fails loadProgress_def)
qed

lemma loadProgress_recordQuizResults_Item:
  "\<exists>P'. loadProgress (recordQuizResults calls (Item P)) = Some P'"
proof (induction calls arbitrary: P)
  case Nil
  show ?case by (simp add: loadProgress_def)
next
  case (Cons call calls)
  obtain env topicId score passed where call: "call = (env, topicId, score, passed)"
    by (cases call) auto
  obtain P' where "loadProgress (recordQuizResult env topicId score passed (Item P)) = Some P'"
    using loadProgress_recordQuizResult_Item by blast
  then have "recordQuizResult env topicId score passed (Item P) = Item P'"
    by (simp add: loadProgress_def split: storage_item.splits)
  with Cons.IH [of P'] show ?case by (simp add: call)
qed

text \<open>
  Claim C5. Capture is monotone: a topic among the captured topics of a stored record is
  among the captured topics of the record stored after any finite sequence of
  \<open>recordQuizResult\<close> calls, whatever their topic ids, scores and passed flags are,
  and whether or not their writes go through.
\<close>

theorem capture_monotone:
  assumes "T \<in> set (capturedTopics P)"
  shows "\<exists>P'. loadProgress (recordQuizResults calls (Item P)) = Some P'
          \<and> T \<in> set (capturedTopics P')"
proof -
  obtain P' where l: "loadProgress (recordQuizResults calls (Item P)) = Some P'"
    using loadProgress_recordQuizResults_Item by blast
  from assms capturedTopics_recordQuizResults [of env_write_ok "Item P" calls]
  have "T \<in> set (capturedTopics (currentProgress env_write_ok (recordQuizResults calls (Item P))))"
    by (auto simp: currentProgress_Item)
  with l show ?thesis by (simp add: currentProgress_loaded)
qed

text \<open>
  At \<open>quadratic-formula\<close>, captured with 80: a failed retry with 20, a passed quiz
  on another topic and a passed retry with a lower score leave it captured.
\<close>

theorem capture_monotone_witness:
  "''quadratic-formula'' \<in> set (capturedTopics progress_formula_captured)
   \<and> (\<exists>P'. loadProgress
              (recordQuizResults
                 [(env_write_ok, ''quadratic-formula'', 20, False),
                  (env_write_ok, ''discriminant'', 90, True),
                  (env_write_ok, ''quadratic-formula'', 60, True)]
                 (Item progress_formula_captured)) = Some P'
          \<and> ''quadratic-formula'' \<in> set (capturedTopics P'))"
proof -
  have h: "''quadratic-formula'' \<in> set (capturedTopics progress_formula_captured)"
    by (simp add: progress_formula_captured_def)
  from capture_monotone [OF h] h show ?thesis by blast
qed

text \<open>
  Claim C10. \<open>recordQuizResult\<close> never changes \<open>unlockedTopics\<close>: the record in
  use after the call has the \<open>unlockedTopics\<close> of the record in use before it, from
  any stored item and for any arguments; from a stored record, the stored record after
  the call has the same \<open>unlockedTopics\<close>. The update leaves the field out, and the
  spread keeps the old value of a field that is left out.
\<close>

theorem recordQuizResult_keeps_unlockedTopics:
  "unlockedTopics (currentProgress e (recordQuizResult env topicId score passed st))
     = unlockedTopics (currentProgress e st)
   \<and> (\<exists>P'. loadProgress (recordQuizResult env topicId score passed (Item P)) = Some P'
         \<and> unlockedTopics P' = unlockedTopics P)
   \<and> (new_unlockedTopics updates = None
        \<longrightarrow> unlockedTopics (spread current updates) = unlockedTopics current)"
proof (intro conjI)
  show g: "unlockedTopics (currentProgress e (recordQuizResult env topicId score passed st))
     = unlockedTopics (currentProgress e st)" for st
  proof (cases "setItem_succeeds env")
    case True
    from loadProgress_recordQuizResult [OF True, of topicId score passed st]
    show ?thesis
      by (simp add: currentProgress_loaded currentProgress_env(2) [of e st env])
  next
    case False
    then show ?thesis by (simp add: recordQuizResult_write_fails)
  qed
  obtain P' where l: "loadProgress (recordQuizResult env topicId score passed (Item P)) = Some P'"
    using loadProgress_recordQuizResult_Item by blast
  from g [of "Item P"] l have "unlockedTopics P' = unlockedTopics P"
    by (simp add: currentProgress_loaded currentProgress_Item)
  with l show "\<exists>P'. loadProgress (recordQuizResult env topicId score passed (Item P)) = Some P'
         \<and> unlockedTopics P' = unlockedTopics P"
    by blast
  show "new_unlockedTopics updates = None
        \<longrightarrow> unlockedTopics (spread current updates) = unlockedTopics current"
    by (simp add: spread_def)
qed

theorem recordQuizResult_keeps_unlockedTopics_witness:
  "new_unlockedTopics
     \<lparr>new_capturedTopics = Some [''quadratic-equations''],
      new_unlockedTopics = None,
      new_quizAttempts = None,
      new_quizScores = None,
      new_lastActivity = None,
      new_completionRate = Some (5 / 2)\<rparr> = None
   \<and> unlockedTopics
       (spread progress_linear_unlocked
          \<lparr>new_capturedTopics = Some [''quadratic-equations''],
           new_unlockedTopics = None,
           new_quizAttempts = None,
           new_quizScores = None,
           new_lastActivity = None,
           new_completionRate = Some (5 / 2)\<rparr>)
       = [''quadratic-equations'', ''linear-equations'']
   \<and> unlockedTopics
       (currentProgress env_write_ok
          (recordQuizResult env_write_ok ''quadratic-equations'' 75 True
             (Item progress_linear_unlocked)))
       = [''quadratic-equations'', ''linear-equations'']
   \<and> capturedTopics
       (currentProgress env_write_ok
          (recordQuizResult env_write_ok ''quadratic-equations'' 75 True
             (Item progress_linear_unlocked)))
       = [''quadratic-equations'']"
proof -
  let ?updates = "\<lparr>new_capturedTopics = Some [''quadratic-equations''],
      new_unlockedTopics = None,
      new_quizAttempts = None,
      new_quizScores = None,
      new_lastActivity = None,
      new_completionRate = Some (5 / 2 :: rat)\<rparr>"
  have ok: "setItem_succeeds env_write_ok"
    by (simp add: env_write_ok_def)
  have n: "new_unlockedTopics ?updates = None"
    by simp
  have u: "unlockedTopics progress_linear_unlocked = [''quadratic-equations'', ''linear-equations'']"
    and c: "capturedTopics progress_linear_unlocked = []"
    by (simp_all add: progress_linear_unlocked_def)
  have c': "capturedTopics
       (currentProgress env_write_ok
          (recordQuizResult env_write_ok ''quadratic-equations'' 75 True
             (Item progress_linear_unlocked)))
       = [''quadratic-equations'']"
    using loadProgress_recordQuizResult
            [OF ok, of "''quadratic-equations''" 75 True "Item progress_linear_unlocked"]
    by (simp add: currentProgress_loaded currentProgress_Item c)
  from recordQuizResult_keeps_unlockedTopics
         [of env_write_ok env_write_ok "''quadratic-equations''" 75 True
             "Item progress_linear_unlocked" progress_linear_unlocked ?updates
             progress_linear_unlocked]
       n u c'
  show ?thesis by (simp add: currentProgress_Item)
qed











text \<open>
  Claim C2 asks for the stored completion rate to be the number of captured topics
  divided by the number of topics of the store, times 100. The code divides by the
  literal 40. At the first passed quiz of a first run the stored rate is
  \<open>1 / 40 * 100 = 5 / 2\<close>; the store holds 81 topics, for which the claim's value
  is \<open>100 / 81\<close>.
\<close>

theorem recordQuizResult_completionRate_of_40:
  "capturedTopics
     (currentProgress env_write_ok
        (recordQuizResult env_write_ok ''quadratic-equations'' 75 True NoItem))
     = [''quadratic-equations'']
   \<and> completionRate
       (currentProgress env_write_ok
          (recordQuizResult env_write_ok ''quadratic-equations'' 75 True NoItem))
     = 5 / 2
   \<and> length GALAXY_TOPICS = 81
   \<and> of_nat (length [''quadratic-equations'']) / of_nat (length GALAXY_TOPICS) * 100
     = (100 / 81 :: rat)"
proof -
  have ok: "setItem_succeeds env_write_ok"
    by (simp add: env_write_ok_def)
  have d: "capturedTopics (currentProgress env_write_ok NoItem) = []"
    by (simp add: currentProgress_def loadProgress_def getDefaultProgress_def)
  have len: "length GALAXY_TOPICS = 81"
    by (simp add: GALAXY_TOPICS_def)
  from loadProgress_recordQuizResult [OF ok, of "''quadratic-equations''" 75 True NoItem]
  show ?thesis
    by (simp add: currentProgress_loaded d len)
qed

section \<open>Captured and unlocked topics of reachable records\<close>

lemma set_fold_set_add: "set (fold set_add xs acc) = set xs \<union> set acc"
  by (induction xs arbitrary: acc) (auto simp: set_add_def)

lemma handleQuerySubmit_unlocked_superset:
  "set unlockedIds \<subseteq> set (handleQuerySubmit_unlocked userQuery capturedIds unlockedIds)"
  by (auto simp: handleQuerySubmit_unlocked_def Let_def set_fold_set_add)

lemma discoverTopics_write_fails:
  "\<not> setItem_succeeds env \<Longrightarrow> discoverTopics env userQuery st = st"
  by (simp add: discoverTopics_def updateProgress_def saveProgress_def Let_def)

text \<open>
  What keyword discovery leaves in the record in use: the captured topics as they were,
  and the unlocked topics of \<open>handleQuerySubmit\<close> when the write goes through.
\<close>

lemma currentProgress_discoverTopics:
  "capturedTopics (currentProgress env (discoverTopics env userQuery st))
     = capturedTopics (currentProgress env st)"
  "unlockedTopics (currentProgress env (discoverTopics env userQuery st))
     = (if setItem_succeeds env
        then handleQuerySubmit_unlocked userQuery (capturedTopics (currentProgress env st))
               (unlockedTopics (currentProgress env st))
        else unlockedTopics (currentProgress env st))"
  by (simp_all add: discoverTopics_def updateProgress_def saveProgress_def spread_def
      Let_def currentProgress_Item)

lemma captured_within_unlocked_env:
  "captured_within_unlocked (currentProgress e st)
     = captured_within_unlocked (currentProgress e' st)"
  by (simp add: captured_within_unlocked_def currentProgress_env(1,2) [of e st e'])

lemma captured_within_unlocked_quiz:
  assumes inv: "captured_within_unlocked (currentProgress env st)"
    and gate: "passed \<longrightarrow> topicId = ''quadratic-equations''
                \<or> topicId \<in> set (unlockedTopics (currentProgress env st))"
  shows "captured_within_unlocked
           (currentProgress env (recordQuizResult env topicId score passed st))"
proof (cases "setItem_succeeds env")
  case True
  from loadProgress_recordQuizResult [OF True, of topicId score passed st] inv gate
  show ?thesis
    by (auto simp: currentProgress_loaded captured_within_unlocked_def)
next
  case False
  with inv show ?thesis by (simp add: recordQuizResult_write_fails)
qed

lemma captured_within_unlocked_discovery:
  assumes inv: "captured_within_unlocked (currentProgress env st)"
  shows "captured_within_unlocked (currentProgress env (discoverTopics env userQuery st))"
proof -
  from handleQuerySubmit_unlocked_superset
         [of "unlockedTopics (currentProgress env st)" userQuery
             "capturedTopics (currentProgress env st)"]
  have "set (unlockedTopics (currentProgress env st))
      \<subseteq> set (unlockedTopics (currentProgress env (discoverTopics env userQuery st)))"
    by (simp add: currentProgress_discoverTopics(2))
  with inv show ?thesis
    unfolding captured_within_unlocked_def currentProgress_discoverTopics(1) by blast
qed

text \<open>
  Claim C3, as stated, fails. \<open>recordQuizResult\<close> adds the topic of a passed quiz
  to \<open>capturedTopics\<close> without looking at \<open>unlockedTopics\<close>, and never writes
  \<open>unlockedTopics\<close>. From the first run, a passed quiz on
  \<open>quadratic-equations\<close> and then one on its neighbour \<open>quadratic-formula\<close>
  (which the unlock check opens, without recording it) give a record whose captured
  topic \<open>quadratic-formula\<close> is neither \<open>quadratic-equations\<close> nor in
  \<open>unlockedTopics\<close>. \<open>updateProgress\<close> writes the captured list it is given
  and breaks the inclusion in one step.
\<close>

theorem ungated_capture_escapes_unlockedTopics:
  "reachable
     (recordQuizResults
        [(env_write_ok, ''quadratic-equations'', 75, True),
         (env_write_ok, ''quadratic-formula'', 80, True)] NoItem)
   \<and> capturedTopics
        (currentProgress env_write_ok
          (recordQuizResults
            [(env_write_ok, ''quadratic-equations'', 75, True),
             (env_write_ok, ''quadratic-formula'', 80, True)] NoItem))
       = [''quadratic-equations'', ''quadratic-formula'']
   \<and> unlockedTopics
        (currentProgress env_write_ok
          (recordQuizResults
            [(env_write_ok, ''quadratic-equations'', 75, True),
             (env_write_ok, ''quadratic-formula'', 80, True)] NoItem))
       = [''quadratic-equations'']
   \<and> \<not> captured_within_unlocked
        (currentProgress env_write_ok
          (recordQuizResults
            [(env_write_ok, ''quadratic-equations'', 75, True),
             (env_write_ok, ''quadratic-formula'', 80, True)] NoItem))
   \<and> \<not> captured_within_unlocked
        (currentProgress env_write_ok
          (updateProgress env_write_ok
             \<lparr>new_capturedTopics = Some [''integrals''],
              new_unlockedTopics = None,
              new_quizAttempts = None,
              new_quizScores = None,
              new_lastActivity = None,
              new_completionRate = None\<rparr> NoItem))"
proof -
  let ?st1 = "recordQuizResult env_write_ok ''quadratic-equations'' 75 True NoItem"
  let ?st2 = "recordQuizResult env_write_ok ''quadratic-formula'' 80 True ?st1"
  have ok: "setItem_succeeds env_write_ok"
    by (simp add: env_write_ok_def)
  have r: "reachable ?st2"
    by (intro reachable.quiz reachable.first_run)
  have d: "capturedTopics (currentProgress env_write_ok NoItem) = []"
    "unlockedTopics (currentProgress env_write_ok NoItem) = [''quadratic-equations'']"
    by (simp_all add: currentProgress_def loadProgress_def getDefaultProgress_def)
  have c1: "capturedTopics (currentProgress env_write_ok ?st1) = [''quadratic-equations'']"
    and u1: "unlockedTopics (currentProgress env_write_ok ?st1) = [''quadratic-equations'']"
    using loadProgress_recordQuizResult [OF ok, of "''quadratic-equations''" 75 True NoItem]
    by (simp_all add: currentProgress_loaded d)
  have c2: "capturedTopics (currentProgress env_write_ok ?st2)
      = [''quadratic-equations'', ''quadratic-formula'']"
    and u2: "unlockedTopics (currentProgress env_write_ok ?st2) = [''quadratic-equations'']"
    using loadProgress_recordQuizResult [OF ok, of "''quadratic-formula''" 80 True ?st1]
    by (simp_all add: currentProgress_loaded c1 u1)
  have w: "\<not> captured_within_unlocked
        (currentProgress env_write_ok
          (updateProgress env_write_ok
             \<lparr>new_capturedTopics = Some [''integrals''],
              new_unlockedTopics = None,
              new_quizAttempts = None,
              new_quizScores = None,
              new_lastActivity = None,
              new_completionRate = None\<rparr> NoItem))"
    by (simp add: updateProgress_def saveProgress_def spread_def ok Let_def
        currentProgress_Item d captured_within_unlocked_def)
  from r c2 u2 w show ?thesis
    by (simp add: captured_within_unlocked_def)
qed

text \<open>
  Claim C3, amended. Every record reached from the first run by keyword discovery and
  by \<open>recordQuizResult\<close> calls whose topic, when the quiz is passed, is
  \<open>quadratic-equations\<close> or in \<open>unlockedTopics\<close> at the time of the call has
  all its captured topics in \<open>unlockedTopics\<close> or equal to
  \<open>quadratic-equations\<close>. The condition on the topic is the caller's:
  \<open>recordQuizResult\<close> does not check it. The raw \<open>updateProgress\<close> is left
  out.
\<close>

theorem gated_capture_within_unlockedTopics:
  assumes "reachable_gated st"
  shows "captured_within_unlocked (currentProgress env st)"
  using assms
proof (induction arbitrary: env rule: reachable_gated.induct)
  case gated_first_run
  show ?case
    by (simp add: captured_within_unlocked_def currentProgress_def loadProgress_def
        getDefaultProgress_def)
next
  case (gated_quiz st passed topicId env' score)
  from gated_quiz.IH [of env'] gated_quiz.hyps(2)
  have "captured_within_unlocked
      (currentProgress env' (recordQuizResult env' topicId score passed st))"
    by (rule captured_within_unlocked_quiz)
  then show ?case
    by (simp add: captured_within_unlocked_env [of env _ env'])
next
  case (gated_discovery st env' userQuery)
  from gated_discovery.IH [of env']
  have "captured_within_unlocked (currentProgress env' (discoverTopics env' userQuery st))"
    by (rule captured_within_unlocked_discovery)
  then show ?case
    by (simp add: captured_within_unlocked_env [of env _ env'])
qed

theorem gated_capture_within_unlockedTopics_witness:
  "reachable_gated
     (recordQuizResult env_write_ok ''linear-equations'' 80 True
        (discoverTopics env_write_ok ''linear equation'' NoItem))
   \<and> capturedTopics
        (currentProgress env_write_ok
           (recordQuizResult env_write_ok ''linear-equations'' 80 True
              (discoverTopics env_write_ok ''linear equation'' NoItem)))
       = [''linear-equations'']
   \<and> unlockedTopics
        (currentProgress env_write_ok
           (recordQuizResult env_write_ok ''linear-equations'' 80 True
              (discoverTopics env_write_ok ''linear equation'' NoItem)))
       = [''quadratic-equations'', ''linear-equations'']
   \<and> captured_within_unlocked
        (currentProgress env_write_ok
           (recordQuizResult env_write_ok ''linear-equations'' 80 True
              (discoverTopics env_write_ok ''linear equation'' NoItem)))"
proof -
  let ?st1 = "discoverTopics env_write_ok ''linear equation'' NoItem"
  let ?st2 = "recordQuizResult env_write_ok ''linear-equations'' 80 True ?st1"
  have ok: "setItem_succeeds env_write_ok"
    by (simp add: env_write_ok_def)
  have d: "capturedTopics (currentProgress env_write_ok NoItem) = []"
    "unlockedTopics (currentProgress env_write_ok NoItem) = [''quadratic-equations'']"
    by (simp_all add: currentProgress_def loadProgress_def getDefaultProgress_def)
  have hq: "handleQuerySubmit_unlocked ''linear equation'' [] [''quadratic-equations'']
      = [''quadratic-equations'', ''linear-equations'']"
    by code_simp
  have c1: "capturedTopics (currentProgress env_write_ok ?st1) = []"
    and u1: "unlockedTopics (currentProgress env_write_ok ?st1)
      = [''quadratic-equations'', ''linear-equations'']"
    by (simp_all add: currentProgress_discoverTopics ok d hq)
  have c2: "capturedTopics (currentProgress env_write_ok ?st2) = [''linear-equations'']"
    and u2: "unlockedTopics (currentProgress env_write_ok ?st2)
      = [''quadratic-equations'', ''linear-equations'']"
    using loadProgress_recordQuizResult [OF ok, of "''linear-equations''" 80 True ?st1]
    by (simp_all add: currentProgress_loaded c1 u1)
  have r1: "reachable_gated ?st1"
    by (intro reachable_gated.gated_discovery reachable_gated.gated_first_run)
  have r2: "reachable_gated ?st2"
    by (rule reachable_gated.gated_quiz [OF r1]) (simp add: u1)
  from gated_capture_within_unlockedTopics [OF r2, of env_write_ok] r2 c2 u2
  show ?thesis by simp
qed

section \<open>The keyword matcher\<close>

lemma startsWith_iff: "startsWith s sub \<longleftrightarrow> (\<exists>post. s = sub @ post)"
  by (induction s sub rule: startsWith.induct) auto

lemma str_includes_iff: "str_includes s sub \<longleftrightarrow> (\<exists>pre post. s = pre @ sub @ post)"
proof (induction s)
  case Nil
  show ?case by auto
next
  case (Cons d s)
  show ?case
  proof
    assume "str_includes (d # s) sub"
    then consider "startsWith (d # s) sub" | "str_includes s sub" by auto
    then show "\<exists>pre post. d # s = pre @ sub @ post"
    proof cases
      case 1
      then obtain post where "d # s = sub @ post" by (auto simp: startsWith_iff)
      then have "d # s = [] @ sub @ post" by simp
      then show ?thesis by blast
    next
      case 2
      with Cons.IH obtain pre post where "s = pre @ sub @ post" by blast
      then have "d # s = (d # pre) @ sub @ post" by simp
      then show ?thesis by blast
    qed
  next
    assume "\<exists>pre post. d # s = pre @ sub @ post"
    then obtain pre post where e: "d # s = pre @ sub @ post" by blast
    show "str_includes (d # s) sub"
    proof (cases pre)
      case Nil
      with e have "startsWith (d # s) sub" by (auto simp: startsWith_iff)
      then show ?thesis by simp
    next
      case (Cons a pre')
      with e have "s = pre' @ sub @ post" by simp
      with Cons.IH have "str_includes s sub" by blast
      then show ?thesis by simp
    qed
  qed
qed

lemma set_fold_keywords:
  "set (fold (\<lambda>(keyword, topicIds) matched.
                if hit keyword then fold set_add topicIds matched else matched) entries acc)
     = set acc \<union> {topicId. \<exists>(keyword, topicIds) \<in> set entries.
                       hit keyword \<and> topicId \<in> set topicIds}"
proof (induction entries arbitrary: acc)
  case Nil
  show ?case by simp
next
  case (Cons entry entries)
  obtain keyword topicIds where entry: "entry = (keyword, topicIds)"
    by (cases entry)
  show ?case
    by (auto simp: entry Cons.IH set_fold_set_add)
qed

lemma set_fold_words:
  "set (fold (\<lambda>word matched. if hit word then fold set_add topicIds matched else matched)
          ws acc)
     = set acc \<union> {topicId. (\<exists>word \<in> set ws. hit word) \<and> topicId \<in> set topicIds}"
  by (induction ws arbitrary: acc) (auto simp: set_fold_set_add)

lemma set_fold_keywords_words:
  "set (fold (\<lambda>(keyword, topicIds) matched.
                fold (\<lambda>word matched'.
                        if hit keyword word then fold set_add topicIds matched' else matched')
                     ws matched) entries acc)
     = set acc \<union> {topicId. \<exists>(keyword, topicIds) \<in> set entries.
                       (\<exists>word \<in> set ws. hit keyword word) \<and> topicId \<in> set topicIds}"
proof (induction entries arbitrary: acc)
  case Nil
  show ?case by simp
next
  case (Cons entry entries)
  obtain keyword topicIds where entry: "entry = (keyword, topicIds)"
    by (cases entry)
  show ?case
    by (auto simp: entry Cons.IH set_fold_words)
qed

lemma set_exactPass:
  "set (exactPass queryWords []) =
     {topicId. \<exists>(keyword, topicIds) \<in> set KEYWORD_TOPIC_MAP.
        str_includes queryWords keyword \<and> topicId \<in> set topicIds}"
  unfolding exactPass_def by (simp add: set_fold_keywords)

lemma set_partialPass:
  "set (partialPass queryWords []) =
     {topicId. \<exists>(keyword, topicIds) \<in> set KEYWORD_TOPIC_MAP.
        (\<exists>word \<in> set (split_ws [] queryWords). length word > 3
           \<and> (str_includes keyword word \<or> str_includes word (first_word keyword)))
        \<and> topicId \<in> set topicIds}"
  unfolding partialPass_def Let_def set_fold_keywords_words
  by auto

text \<open>
  Claim C7. When the exact pass over the normalised query yields at least one topic id,
  \<open>getTopicsFromQuery\<close> returns the result of the exact pass and the fallback pass
  adds nothing; the fallback pass runs exactly when the exact pass yields nothing. The
  exact pass collects the ids of the keywords that occur in the query as a substring;
  the fallback pass collects the ids of the keywords for which some word of the query
  longer than three characters occurs in the keyword or contains the keyword's first
  word.
\<close>

theorem fallback_only_on_empty:
  "(exactPass (trim (toLowerCase query)) [] \<noteq> []
      \<longrightarrow> getTopicsFromQuery query = exactPass (trim (toLowerCase query)) [])
   \<and> (exactPass (trim (toLowerCase query)) [] = []
      \<longrightarrow> getTopicsFromQuery query = partialPass (trim (toLowerCase query)) [])
   \<and> set (exactPass queryWords []) =
       {topicId. \<exists>(keyword, topicIds) \<in> set KEYWORD_TOPIC_MAP.
          (\<exists>pre post. queryWords = pre @ keyword @ post) \<and> topicId \<in> set topicIds}
   \<and> set (partialPass queryWords []) =
       {topicId. \<exists>(keyword, topicIds) \<in> set KEYWORD_TOPIC_MAP.
          (\<exists>word \<in> set (split_ws [] queryWords). length word > 3
             \<and> ((\<exists>pre post. keyword = pre @ word @ post)
                 \<or> (\<exists>pre post. word = pre @ first_word keyword @ post)))
          \<and> topicId \<in> set topicIds}"
proof (intro conjI impI)
  assume "exactPass (trim (toLowerCase query)) [] \<noteq> []"
  then show "getTopicsFromQuery query = exactPass (trim (toLowerCase query)) []"
    by (simp add: getTopicsFromQuery_def Let_def)
next
  assume "exactPass (trim (toLowerCase query)) [] = []"
  then show "getTopicsFromQuery query = partialPass (trim (toLowerCase query)) []"
    by (simp add: getTopicsFromQuery_def Let_def)
next
  show "set (exactPass queryWords []) =
       {topicId. \<exists>(keyword, topicIds) \<in> set KEYWORD_TOPIC_MAP.
          (\<exists>pre post. queryWords = pre @ keyword @ post) \<and> topicId \<in> set topicIds}"
    by (simp add: set_exactPass str_includes_iff)
next
  show "set (partialPass queryWords []) =
       {topicId. \<exists>(keyword, topicIds) \<in> set KEYWORD_TOPIC_MAP.
          (\<exists>word \<in> set (split_ws [] queryWords). length word > 3
             \<and> ((\<exists>pre post. keyword = pre @ word @ post)
                 \<or> (\<exists>pre post. word = pre @ first_word keyword @ post)))
          \<and> topicId \<in> set topicIds}"
    by (simp add: set_partialPass str_includes_iff)
qed

text \<open>
  At the query \<open>area\<close> the fallback pass alone would add
  \<open>applications-integrals\<close> (the keyword \<open>area integration\<close> contains the
  word); the result has the two ids of the exact pass only. At \<open>hello world\<close>
  the exact pass is empty and the result is that of the fallback pass.
\<close>

theorem fallback_only_on_empty_witness:
  "exactPass (trim (toLowerCase ''area'')) [] = [''area-volume'', ''geometry-basics'']
   \<and> ''applications-integrals'' \<in> set (partialPass (trim (toLowerCase ''area'')) [])
   \<and> getTopicsFromQuery ''area'' = [''area-volume'', ''geometry-basics'']
   \<and> exactPass (trim (toLowerCase ''hello world'')) [] = []
   \<and> getTopicsFromQuery ''hello world'' = [''real-world-applications'', ''parabola-graphs'']"
proof -
  have e: "exactPass (trim (toLowerCase ''area'')) [] = [''area-volume'', ''geometry-basics'']"
    by code_simp
  have p: "''applications-integrals'' \<in> set (partialPass (trim (toLowerCase ''area'')) [])"
    by code_simp
  have e': "exactPass (trim (toLowerCase ''hello world'')) [] = []"
    by code_simp
  have p': "partialPass (trim (toLowerCase ''hello world'')) []
      = [''real-world-applications'', ''parabola-graphs'']"
    by code_simp
  from fallback_only_on_empty [of "''area''"] fallback_only_on_empty [of "''hello world''"]
    e p e' p'
  show ?thesis by simp
qed

lemma toLowerCase_char_space: "isSpace c \<Longrightarrow> toLowerCase_char c = c"
  by (auto simp: isSpace_def toLowerCase_char_def)

lemma toLowerCase_spaces: "list_all isSpace s \<Longrightarrow> toLowerCase s = s"
  by (induction s) (simp_all add: toLowerCase_def toLowerCase_char_space)

lemma toLowerCase_append: "toLowerCase (s @ t) = toLowerCase s @ toLowerCase t"
  by (simp add: toLowerCase_def)

lemma trim_leading: "list_all isSpace pre \<Longrightarrow> trim (pre @ s) = trim s"
  by (simp add: trim_def list_all_iff)

lemma trim_trailing:
  assumes "list_all isSpace post"
  shows "trim (s @ post) = trim s"
proof (cases "\<forall>c \<in> set s. isSpace c")
  case True
  with assms have "\<forall>c \<in> set (s @ post). isSpace c"
    by (auto simp: list_all_iff)
  then have a: "dropWhile isSpace (s @ post) = []"
    by (simp only: dropWhile_eq_Nil_conv)
  from True have b: "dropWhile isSpace s = []"
    by (simp only: dropWhile_eq_Nil_conv)
  show ?thesis unfolding trim_def a b ..
next
  case False
  then obtain c where "c \<in> set s" and "\<not> isSpace c"
    by blast
  then have a: "dropWhile isSpace (s @ post) = dropWhile isSpace s @ post"
    by (rule dropWhile_append1)
  from assms have "\<And>c. c \<in> set (rev post) \<Longrightarrow> isSpace c"
    by (simp add: list_all_iff)
  then have b: "dropWhile isSpace (rev post @ rev (dropWhile isSpace s))
      = dropWhile isSpace (rev (dropWhile isSpace s))"
    by (rule dropWhile_append2)
  show ?thesis unfolding trim_def a rev_append b ..
qed

lemma getTopicsFromQuery_normalised:
  assumes "list_all isSpace pre" and "list_all isSpace post"
    and "toLowerCase q1 = toLowerCase q2"
  shows "getTopicsFromQuery (pre @ q1 @ post) = getTopicsFromQuery q2"
proof -
  have "trim (toLowerCase (pre @ q1 @ post)) = trim (pre @ toLowerCase q1 @ post)"
    by (simp add: toLowerCase_append toLowerCase_spaces assms(1,2))
  also have "\<dots> = trim (toLowerCase q1 @ post)"
    by (rule trim_leading [OF assms(1)])
  also have "\<dots> = trim (toLowerCase q1)"
    by (rule trim_trailing [OF assms(2)])
  finally show ?thesis
    by (simp add: getTopicsFromQuery_def assms(3))
qed

text \<open>
  Claim C9. \<open>getTopicsFromQuery\<close> is a function of the query string alone: it
  reads the query and the constant keyword table, and no state. It is insensitive to
  white space around the query and to letter case: a query padded with white space on
  either side, and differing from another query in letter case only, gets the result
  of that query. In particular \<open>"  QUADRATIC Formula "\<close> and
  \<open>"quadratic formula"\<close> get the same result.
\<close>

theorem getTopicsFromQuery_case_and_padding:
  "(q = q' \<longrightarrow> getTopicsFromQuery q = getTopicsFromQuery q')
   \<and> (list_all isSpace pre \<and> list_all isSpace post \<and> toLowerCase q1 = toLowerCase q2
      \<longrightarrow> getTopicsFromQuery (pre @ q1 @ post) = getTopicsFromQuery q2)
   \<and> getTopicsFromQuery ''  QUADRATIC Formula '' = getTopicsFromQuery ''quadratic formula''"
proof (intro conjI impI)
  assume "q = q'"
  then show "getTopicsFromQuery q = getTopicsFromQuery q'"
    by simp
next
  assume "list_all isSpace pre \<and> list_all isSpace post \<and> toLowerCase q1 = toLowerCase q2"
  then show "getTopicsFromQuery (pre @ q1 @ post) = getTopicsFromQuery q2"
    by (simp add: getTopicsFromQuery_normalised)
next
  have sp: "list_all isSpace ''  ''" "list_all isSpace '' ''"
    by (simp_all add: isSpace_def)
  have lc: "toLowerCase ''QUADRATIC Formula'' = toLowerCase ''quadratic formula''"
    by code_simp
  from getTopicsFromQuery_normalised [OF sp lc]
  show "getTopicsFromQuery ''  QUADRATIC Formula '' = getTopicsFromQuery ''quadratic formula''"
    by simp
qed

theorem getTopicsFromQuery_case_and_padding_witness:
  "list_all isSpace [CHR 0x09, CHR '' ''] \<and> list_all isSpace [CHR 0x0A]
   \<and> toLowerCase ''Pythagorean THEOREM'' = toLowerCase ''pythagorean theorem''
   \<and> getTopicsFromQuery ([CHR 0x09, CHR '' ''] @ ''Pythagorean THEOREM'' @ [CHR 0x0A])
       = [''triangles'', ''geometry-basics'']
   \<and> getTopicsFromQuery ''  QUADRATIC Formula '' = [''quadratic-equations'', ''quadratic-formula'']"
proof -
  have sp: "list_all isSpace [CHR 0x09, CHR '' ''] \<and> list_all isSpace [CHR 0x0A]"
    by (simp add: isSpace_def)
  have lc: "toLowerCase ''Pythagorean THEOREM'' = toLowerCase ''pythagorean theorem''"
    by code_simp
  have v: "getTopicsFromQuery ''pythagorean theorem'' = [''triangles'', ''geometry-basics'']"
    by code_simp
  have w: "getTopicsFromQuery ''quadratic formula'' = [''quadratic-equations'', ''quadratic-formula'']"
    by code_simp
  from getTopicsFromQuery_case_and_padding
         [of "''area''" "''area''" "[CHR 0x09, CHR '' '']" "[CHR 0x0A]" "''Pythagorean THEOREM''" "''pythagorean theorem''"]
       sp lc v w
  show ?thesis by simp
qed

end
